theory Spec2Isabelle
  imports Complex_Main
begin

section \<open>Python strings\<close>

text \<open>
  A Python \<open>str\<close> is a sequence of Unicode code points, and \<open>len\<close> counts code points.
  A string is therefore a list of natural numbers; \<open>u\<close> turns an ASCII literal into it.
  The bullet \<open>U+2022\<close> of the source is the code point 8226.
\<close>

type_synonym pystr = "nat list"

definition u :: "string \<Rightarrow> pystr" where
  "u s = map of_char s"

definition bullet :: nat where
  "bullet = 8226"

text \<open>\<open>str.isspace\<close> of one code point: the characters \<open>strip()\<close> and \<open>split()\<close> treat as whitespace.\<close>

definition isspace :: "nat \<Rightarrow> bool" where
  "isspace c \<longleftrightarrow>
     (9 \<le> c \<and> c \<le> 13) \<or> (28 \<le> c \<and> c \<le> 32) \<or> c = 133 \<or> c = 160 \<or> c = 5760 \<or>
     (8192 \<le> c \<and> c \<le> 8202) \<or> c = 8232 \<or> c = 8233 \<or> c = 8239 \<or> c = 8287 \<or> c = 12288"

definition lstrip :: "pystr \<Rightarrow> pystr" where
  "lstrip s = dropWhile isspace s"

definition rstrip :: "pystr \<Rightarrow> pystr" where
  "rstrip s = rev (dropWhile isspace (rev s))"

definition strip :: "pystr \<Rightarrow> pystr" where
  "strip s = rstrip (lstrip s)"

text \<open>\<open>s.rstrip(chars)\<close> for a set of characters given as a string.\<close>

definition rstrip_chars :: "pystr \<Rightarrow> pystr \<Rightarrow> pystr" where
  "rstrip_chars s chars = rev (dropWhile (\<lambda>c. c \<in> set chars) (rev s))"

fun startswith :: "pystr \<Rightarrow> pystr \<Rightarrow> bool" where
  "startswith s [] = True"
| "startswith [] (p # ps) = False"
| "startswith (c # cs) (p # ps) = (c = p \<and> startswith cs ps)"

definition endswith :: "pystr \<Rightarrow> pystr \<Rightarrow> bool" where
  "endswith s p = startswith (rev s) (rev p)"

text \<open>\<open>sub in s\<close>: \<open>sub\<close> occurs in \<open>s\<close> as a contiguous substring.\<close>

fun contains :: "pystr \<Rightarrow> pystr \<Rightarrow> bool" where
  "contains [] sub = (sub = [])"
| "contains (c # cs) sub = (startswith (c # cs) sub \<or> contains cs sub)"

text \<open>
  \<open>s.split()\<close> without arguments: the maximal runs of non-whitespace characters.
  The first argument collects the current word in reverse.
\<close>

fun split_ws_acc :: "pystr \<Rightarrow> pystr \<Rightarrow> pystr list" where
  "split_ws_acc cur [] = (if cur = [] then [] else [rev cur])"
| "split_ws_acc cur (c # cs) =
     (if isspace c then (if cur = [] then split_ws_acc [] cs else rev cur # split_ws_acc [] cs)
      else split_ws_acc (c # cur) cs)"

definition split_ws :: "pystr \<Rightarrow> pystr list" where
  "split_ws s = split_ws_acc [] s"

text \<open>
  \<open>s.split(sep)\<close> for a non-empty separator: leftmost, non-overlapping occurrences; the
  result always has at least one piece. Every call site of the source passes a non-empty
  literal (Python raises \<open>ValueError\<close> on an empty one).
\<close>

fun split_acc :: "pystr \<Rightarrow> pystr \<Rightarrow> pystr \<Rightarrow> pystr list" where
  "split_acc sep cur [] = [rev cur]"
| "split_acc sep cur (c # cs) =
     (if startswith (c # cs) sep then rev cur # split_acc sep [] (drop (length sep - 1) cs)
      else split_acc sep (c # cur) cs)"

definition split_on :: "pystr \<Rightarrow> pystr \<Rightarrow> pystr list" where
  "split_on sep s = split_acc sep [] s"

text \<open>\<open>s.split(sep, 1)\<close>: at most one split, at the leftmost occurrence.\<close>

fun split1_acc :: "pystr \<Rightarrow> pystr \<Rightarrow> pystr \<Rightarrow> pystr list" where
  "split1_acc sep cur [] = [rev cur]"
| "split1_acc sep cur (c # cs) =
     (if startswith (c # cs) sep then [rev cur, drop (length sep - 1) cs]
      else split1_acc sep (c # cur) cs)"

definition split_on1 :: "pystr \<Rightarrow> pystr \<Rightarrow> pystr list" where
  "split_on1 sep s = split1_acc sep [] s"

text \<open>\<open>s.rsplit(sep, 1)[0]\<close> for a one-character separator: the part before the last
  occurrence of \<open>sep\<close>, or all of \<open>s\<close> when there is none.\<close>

definition rsplit1_head :: "nat \<Rightarrow> pystr \<Rightarrow> pystr" where
  "rsplit1_head sep s =
     (if sep \<in> set s then rev (tl (dropWhile (\<lambda>c. c \<noteq> sep) (rev s))) else s)"

text \<open>\<open>s.replace(old, '')\<close> for a non-empty \<open>old\<close>: every leftmost, non-overlapping occurrence
  is removed.\<close>

fun remove_all :: "pystr \<Rightarrow> pystr \<Rightarrow> pystr" where
  "remove_all old [] = []"
| "remove_all old (c # cs) =
     (if startswith (c # cs) old then remove_all old (drop (length old - 1) cs)
      else c # remove_all old cs)"

text \<open>\<open>sep.join(xs)\<close>.\<close>

fun join :: "pystr \<Rightarrow> pystr list \<Rightarrow> pystr" where
  "join sep [] = []"
| "join sep [x] = x"
| "join sep (x # y # ys) = x @ sep @ join sep (y # ys)"

text \<open>
  \<open>s.lower()\<close>. On a string of ASCII characters it maps \<open>A..Z\<close> to \<open>a..z\<close>; on any other
  string the result is given by the interpreter's Unicode tables, which are the parameter
  \<open>ul\<close>.
\<close>

definition ascii_lower :: "nat \<Rightarrow> nat" where
  "ascii_lower c = (if 65 \<le> c \<and> c \<le> 90 then c + 32 else c)"

definition lower :: "(pystr \<Rightarrow> pystr) \<Rightarrow> pystr \<Rightarrow> pystr" where
  "lower ul s = (if list_all (\<lambda>c. c < 128) s then map ascii_lower s else ul s)"


section \<open>Summarization: validation of a generated candidate\<close>

text \<open>\<open>LLMProcessor._is_valid_summary\<close>, with its early returns in the source's order.\<close>

definition is_valid_summary :: "pystr \<Rightarrow> bool" where
  "is_valid_summary summary =
     (if summary = [] then False
      else
        let word_count = length (split_ws summary) in
        if word_count < 5 \<or> word_count > 30 then False
        else if length summary > 250 then False
        else if contains summary (u ''###'') \<or> contains summary (u ''##'') then False
        else
          let lines = map strip (filter (\<lambda>line. strip line \<noteq> []) (split_on (u [CHR 0x0A]) summary)) in
          if length lines > 2 then False
          else if contains summary (u ''- '') \<or> contains summary [bullet, 32]
                  \<or> contains summary (u ''* '') then False
          else True)"


section \<open>Summarization: the generation backend\<close>

text \<open>
  A generation request carries the system prompt, the user content, the temperature and the
  token limit. The float literals \<open>0.3\<close>, \<open>0.2\<close> and \<open>0.0\<close> of the source are recorded as
  the decimal fractions they are written as.

  The backend (the \<open>guidance\<close> library and the model server behind it) is outside the
  repository. It is a parameter: a transition function on a state of its own, which for
  each request either raises an exception or yields the generated text. The world of the
  summarizer is the backend's state together with the log of the requests made so far.
\<close>

type_synonym request = "pystr \<times> pystr \<times> rat \<times> nat"

datatype gen_error = BackendException

type_synonym 's backend = "'s \<Rightarrow> request \<Rightarrow> (gen_error + pystr) \<times> 's"

type_synonym 's world = "'s \<times> request list"

text \<open>\<open>LLMProcessor._get_system_prompt\<close>: the literal, stripped.\<close>

definition get_system_prompt :: pystr where
  "get_system_prompt = strip (u (
     ''\<newline>You are a ticket-document reviewer, you provide professional short summary of a user text in 10-20 words.'' @
     ''\<newline>Make a short summary of the user'' @ [CHR 0x27] @ ''s text and explain:'' @
     ''\<newline>- The essence of the fix or improvement being discussed in the document.'' @
     ''\<newline>- Add technical specifics only.'' @
     ''\<newline>- Provide straightforward text.'' @
     ''\<newline>Restrictions:'' @
     ''\<newline>- DO NOT mention information reflected in title content.'' @
     ''\<newline>- DO NOT add comments.'' @
     ''\<newline>- DO not use markdown formatting.'' @
     ''\<newline>'' @
     ''\<newline>Your summary:''))"

text \<open>\<open>LLMProcessor._get_attempt_params\<close>.\<close>

definition get_attempt_params :: "pystr \<Rightarrow> nat \<Rightarrow> pystr \<times> rat \<times> nat" where
  "get_attempt_params content attempt =
     (if attempt = 1 then (content, 3 / 10, 150)
      else if attempt = 2 then
        (take 800 content @
           u (''\<newline>\<newline>Summarize the key improvement or fix being described above in 10-20 words.''),
         2 / 10, 100)
      else
        (u ''Create a dashboard for managing multiple projects. What does this solve? Answer in 10 words maximum.'',
         0, 40))"

text \<open>
  \<open>LLMProcessor._attempt_summary\<close>: one request to the backend, with the parameters of
  the attempt; the generated text is returned stripped, an exception is passed on.
\<close>

definition attempt_summary ::
  "'s backend \<Rightarrow> pystr \<Rightarrow> pystr \<Rightarrow> nat \<Rightarrow> 's world \<Rightarrow> (gen_error + pystr) \<times> 's world" where
  "attempt_summary be content system_prompt attempt w =
     (case get_attempt_params content attempt of (user_content, temp, max_tokens) \<Rightarrow>
        let req = (system_prompt, user_content, temp, max_tokens) in
        (case be (fst w) req of (r, st') \<Rightarrow>
           ((case r of Inl e \<Rightarrow> Inl e | Inr out \<Rightarrow> Inr (strip out)), (st', snd w @ [req]))))"


section \<open>Summarization: the deterministic fallback\<close>

text \<open>\<open>LLMProcessor._should_skip_line\<close>.\<close>

definition should_skip_line :: "(pystr \<Rightarrow> pystr) \<Rightarrow> pystr \<Rightarrow> bool" where
  "should_skip_line ul line =
     (if startswith line (u ''#'') \<or> (startswith line (u ''**'') \<and> endswith line (u ''**'')) then True
      else if list_ex (\<lambda>header. contains (lower ul line) header)
                (map u [''problem statement'', ''current state'', ''desired state'',
                        ''current state:'', ''desired state:'', ''solution analysis'',
                        ''implementation'', ''acceptance criteria'', ''rationale'']) then True
      else if startswith line (u ''-'') \<or> startswith line (u ''*'') \<or> startswith line [bullet] then True
      else list_ex (\<lambda>keyword. contains (lower ul line) keyword)
             (map u [''efficiency:'', ''oversight:'', ''consistency:'', ''scalability:'',
                     ''each project has its own'', ''users must manually navigate'']))"

text \<open>\<open>LLMProcessor._is_section_header\<close>.\<close>

definition is_section_header :: "(pystr \<Rightarrow> pystr) \<Rightarrow> pystr \<Rightarrow> bool" where
  "is_section_header ul line =
     list_ex (\<lambda>header. contains (lower ul line) header)
       (map u [''problem statement'', ''current state'', ''desired state'',
               ''solution analysis'', ''implementation'', ''acceptance criteria''])"

text \<open>\<open>LLMProcessor._is_meaningful_line\<close>.\<close>

definition is_meaningful_line :: "pystr \<Rightarrow> bool" where
  "is_meaningful_line line \<longleftrightarrow> length line > 20 \<and> \<not> startswith line (u ''-'')"

text \<open>\<open>LLMProcessor._clean_line\<close>.\<close>

definition clean_line :: "pystr \<Rightarrow> pystr" where
  "clean_line line = strip (remove_all (u ''*'') (remove_all (u ''**'') line))"

text \<open>
  The loop of \<open>LLMProcessor._extract_meaningful_sentences\<close> over the remaining lines, with
  the loop variables \<open>filtered_lines\<close> and \<open>skip_section\<close>. The two \<open>continue\<close> statements
  go to the next line without the length test; the \<open>break\<close> ends the loop.
\<close>

fun extract_loop :: "(pystr \<Rightarrow> pystr) \<Rightarrow> pystr list \<Rightarrow> pystr list \<Rightarrow> bool \<Rightarrow> pystr list" where
  "extract_loop ul [] filtered_lines skip_section = filtered_lines"
| "extract_loop ul (l # ls) filtered_lines skip_section =
     (let line = strip l in
      if line = [] then extract_loop ul ls filtered_lines skip_section
      else if should_skip_line ul line then
        extract_loop ul ls filtered_lines (if is_section_header ul line then True else skip_section)
      else
        (case (if \<not> skip_section \<and> is_meaningful_line line then
                 (let clean = clean_line line in
                  if length clean > 30 then (filtered_lines @ [clean], False)
                  else (filtered_lines, skip_section))
               else (filtered_lines, skip_section)) of
           (filtered_lines', skip_section') \<Rightarrow>
             if length filtered_lines' \<ge> 3 then filtered_lines'
             else extract_loop ul ls filtered_lines' skip_section'))"

text \<open>\<open>LLMProcessor._extract_meaningful_sentences\<close>.\<close>

definition extract_meaningful_sentences :: "(pystr \<Rightarrow> pystr) \<Rightarrow> pystr \<Rightarrow> pystr list" where
  "extract_meaningful_sentences ul content =
     extract_loop ul (split_on (u [CHR 0x0A]) content) [] False"

text \<open>\<open>LLMProcessor._extract_simple_sentences\<close>.\<close>

definition extract_simple_sentences :: "(pystr \<Rightarrow> pystr) \<Rightarrow> pystr \<Rightarrow> pystr list" where
  "extract_simple_sentences ul content =
     (let sentences = map strip (filter (\<lambda>s. strip s \<noteq> [] \<and> length (strip s) > 20)
                                       (split_on (u ''. '') content)) in
      case find (\<lambda>sentence. \<not> list_ex (\<lambda>phrase. contains (lower ul sentence) phrase)
                                (map u [''managing multiple projects'', ''each project has'',
                                        ''users must'']))
                (take 3 sentences) of
        Some sentence \<Rightarrow> [sentence]
      | None \<Rightarrow> take 1 sentences)"

text \<open>\<open>LLMProcessor._format_summary_from_sentences\<close>.\<close>

definition format_summary_from_sentences :: "pystr list \<Rightarrow> pystr" where
  "format_summary_from_sentences sentences =
     (if sentences = [] then u ''Unable to generate summary from content''
      else
        let summary_text = join (u '' '') (take 2 sentences) in
        if length summary_text > 150 then rsplit1_head 32 (take 150 summary_text) @ u ''...''
        else if length summary_text > 120 then rsplit1_head 32 (take 120 summary_text) @ u ''...''
        else summary_text)"

text \<open>
  \<open>LLMProcessor._fallback_summary\<close>. No operation of its body raises on a string, so the
  handler that returns \<open>Summary generation failed\<close> is never entered and has no branch here.
\<close>

definition fallback_summary :: "(pystr \<Rightarrow> pystr) \<Rightarrow> pystr \<Rightarrow> pystr" where
  "fallback_summary ul content =
     (let meaningful_sentences = extract_meaningful_sentences ul content in
      if meaningful_sentences \<noteq> [] then format_summary_from_sentences meaningful_sentences
      else
        let simple_sentences = extract_simple_sentences ul content in
        if simple_sentences \<noteq> [] then format_summary_from_sentences simple_sentences
        else u ''Unable to generate summary from content'')"


section \<open>Summarization: the entry point and the retry ladder\<close>

text \<open>\<open>LLMProcessor._single_summary_attempt\<close>: \<open>result or fallback\<close>, and the fallback on
  an exception.\<close>

definition single_summary_attempt ::
  "'s backend \<Rightarrow> (pystr \<Rightarrow> pystr) \<Rightarrow> pystr \<Rightarrow> 's world \<Rightarrow> pystr \<times> 's world" where
  "single_summary_attempt be ul content w =
     (case attempt_summary be content get_system_prompt 1 w of
        (Inr result, w') \<Rightarrow> (if result \<noteq> [] then result else fallback_summary ul content, w')
      | (Inl e, w') \<Rightarrow> (fallback_summary ul content, w'))"

text \<open>
  The \<open>for\<close> loop of \<open>LLMProcessor._generate_summary_with_attempts\<close> over the remaining
  attempt numbers; after the last one the fallback is used.
\<close>

fun attempts_loop ::
  "'s backend \<Rightarrow> (pystr \<Rightarrow> pystr) \<Rightarrow> pystr \<Rightarrow> pystr \<Rightarrow> nat list \<Rightarrow> 's world \<Rightarrow> pystr \<times> 's world" where
  "attempts_loop be ul content system_prompt [] w = (fallback_summary ul content, w)"
| "attempts_loop be ul content system_prompt (attempt # rest) w =
     (case attempt_summary be content system_prompt attempt w of
        (Inr result, w') \<Rightarrow>
          if result \<noteq> [] \<and> is_valid_summary result then (result, w')
          else attempts_loop be ul content system_prompt rest w'
      | (Inl e, w') \<Rightarrow>
          if attempt = 3 then (fallback_summary ul content, w')
          else attempts_loop be ul content system_prompt rest w')"

definition generate_summary_with_attempts ::
  "'s backend \<Rightarrow> (pystr \<Rightarrow> pystr) \<Rightarrow> pystr \<Rightarrow> 's world \<Rightarrow> pystr \<times> 's world" where
  "generate_summary_with_attempts be ul content w =
     attempts_loop be ul content get_system_prompt [1, 2, 3] w"

text \<open>\<open>LLMProcessor.generate_summary\<close>.\<close>

definition generate_summary ::
  "'s backend \<Rightarrow> (pystr \<Rightarrow> pystr) \<Rightarrow> pystr \<Rightarrow> pystr \<Rightarrow> 's world \<Rightarrow> pystr \<times> 's world" where
  "generate_summary be ul description rationale w =
     (if description \<noteq> [] \<and> rationale \<noteq> [] then
        (let content = u ''Description: '' @ description @ u (''\<newline>\<newline>Rationale: '') @ rationale in
         if length content > 500 then generate_summary_with_attempts be ul content w
         else single_summary_attempt be ul content w)
      else if description \<noteq> [] then
        (if length description > 500 then generate_summary_with_attempts be ul description w
         else single_summary_attempt be ul description w)
      else if rationale \<noteq> [] then
        (if length rationale > 500 then generate_summary_with_attempts be ul rationale w
         else single_summary_attempt be ul rationale w)
      else (u ''No content available for summary'', w))"


section \<open>Ticket identifiers\<close>










section \<open>The protocol client\<close>

text \<open>
  The values \<open>json.loads\<close> produces. A \<open>dict\<close> is an association list read with \<open>map_of\<close>.
  A \<open>float\<close> is a rational or one of the three special values.
\<close>

datatype pyfloat = Finite rat | Infinity | NegInfinity | NaN

datatype json =
    JNull
  | JBool bool
  | JInt int
  | JFloat pyfloat
  | JStr pystr
  | JList "json list"
  | JDict "(pystr \<times> json) list"

text \<open>Python's truth value of such a value, as \<open>if content:\<close> and \<open>if not attrs_text:\<close> test it.\<close>

fun truthy :: "json \<Rightarrow> bool" where
  "truthy JNull = False"
| "truthy (JBool b) = b"
| "truthy (JInt i) = (i \<noteq> 0)"
| "truthy (JFloat f) = (f \<noteq> Finite 0)"
| "truthy (JStr s) = (s \<noteq> [])"
| "truthy (JList xs) = (xs \<noteq> [])"
| "truthy (JDict d) = (d \<noteq> [])"

text \<open>
  Every failure inside \<open>MCPClient._call_mcp_tool\<close> leaves it as an \<open>MCPClientError\<close>: the
  timeout and the missing executable with messages of their own, everything else (also the
  \<open>MCPClientError\<close>s raised in the body) re-raised by the last handler as an unexpected
  error around its cause.
\<close>

datatype cause =
    ServerError pystr
  | NoJsonResponse
  | InvalidJson
  | ToolError json
  | InvalidFormat
  | PyTypeError
  | PyAttributeError
  | OtherException

datatype mcp_error = ServerTimeout | ServerNotFound | Unexpected cause

text \<open>What starting the child process and \<open>communicate\<close> come to: an exception, or the exit
  status with the captured standard output and standard error.\<close>

datatype proc_result =
    FileNotFound
  | TimeoutExpired
  | OtherFailure
  | Completed int pystr pystr

text \<open>The loop that builds \<open>text_content\<close> from the items of the content list.\<close>

fun text_loop :: "json list \<Rightarrow> pystr \<Rightarrow> cause + json" where
  "text_loop [] text_content = Inr (JStr text_content)"
| "text_loop (item # items) text_content =
     (case item of
        JDict d \<Rightarrow>
          (case map_of d (u ''text'') of
             None \<Rightarrow> text_loop items text_content
           | Some (JStr t) \<Rightarrow> text_loop items (text_content @ t)
           | Some _ \<Rightarrow> Inl PyTypeError)
      | _ \<Rightarrow> text_loop items text_content)"

text \<open>The part of \<open>MCPClient._call_mcp_tool\<close> after \<open>json.loads\<close>: from the parsed response
  to the value returned.\<close>

definition handle_response :: "(pystr \<times> json) list \<Rightarrow> cause + json" where
  "handle_response response =
     (case map_of response (u ''error'') of
        Some e \<Rightarrow> Inl (ToolError e)
      | None \<Rightarrow>
          (case map_of response (u ''result'') of
             None \<Rightarrow> Inl InvalidFormat
           | Some result \<Rightarrow>
               (case result of
                  JDict d \<Rightarrow>
                    (case map_of d (u ''content'') of
                       Some (JList (item # items)) \<Rightarrow> text_loop (item # items) []
                     | _ \<Rightarrow> Inr result)
                | _ \<Rightarrow> Inr result)))"

text \<open>
  \<open>MCPClient._call_mcp_tool\<close>, given what the child process did. \<open>json.loads\<close> is the
  parameter \<open>loads\<close>: on a line that starts with \<open>{\<close> it yields a \<open>dict\<close> or raises (\<open>None\<close>).
\<close>

definition call_mcp_tool ::
  "(pystr \<Rightarrow> (pystr \<times> json) list option) \<Rightarrow> proc_result \<Rightarrow> mcp_error + json" where
  "call_mcp_tool loads p =
     (case p of
        FileNotFound \<Rightarrow> Inl ServerNotFound
      | TimeoutExpired \<Rightarrow> Inl ServerTimeout
      | OtherFailure \<Rightarrow> Inl (Unexpected OtherException)
      | Completed returncode stdout stderr \<Rightarrow>
          if returncode \<noteq> 0 then
            Inl (Unexpected (ServerError (if stderr \<noteq> [] then strip stderr else u ''Unknown error'')))
          else
            (case find (\<lambda>line. startswith (strip line) (u ''{''))
                       (rev (split_on (u [CHR 0x0A]) (strip stdout))) of
               None \<Rightarrow> Inl (Unexpected NoJsonResponse)
             | Some line \<Rightarrow>
                 (case loads (strip line) of
                    None \<Rightarrow> Inl (Unexpected InvalidJson)
                  | Some response \<Rightarrow>
                      (case handle_response response of
                         Inl c \<Rightarrow> Inl (Unexpected c)
                       | Inr v \<Rightarrow> Inr v))))"


section \<open>Assembling a ticket\<close>

record TicketData =
  key :: pystr
  title :: pystr
  type :: pystr
  priority :: pystr
  status :: pystr
  description :: "pystr option"
  rationale :: "pystr option"

text \<open>The four characters with which the source file writes the two icons.\<close>

definition icon_section :: pystr where
  "icon_section = [240, 376, 8220, 8211]"

definition icon_ticket :: pystr where
  "icon_ticket = [240, 376, 8220, 8222]"

text \<open>The loop of \<open>MCPClient._extract_section_content\<close>, with \<open>content_lines\<close> and \<open>capture\<close>.\<close>

fun section_loop :: "pystr list \<Rightarrow> pystr list \<Rightarrow> bool \<Rightarrow> pystr list" where
  "section_loop [] content_lines capture = content_lines"
| "section_loop (line # lines) content_lines capture =
     (if strip line = u ''---'' then
        (if capture then content_lines else section_loop lines content_lines True)
      else if capture then
        (if strip line \<noteq> [] \<and> \<not> startswith line icon_section
            \<and> \<not> startswith line (u ''**Section:'')
            \<and> \<not> startswith line (u ''**Content Length:'')
         then section_loop lines (content_lines @ [line]) capture
         else section_loop lines content_lines capture)
      else section_loop lines content_lines capture)"

text \<open>\<open>MCPClient._extract_section_content\<close>; a value that is not a string has no \<open>split\<close>.\<close>

definition extract_section_content :: "json \<Rightarrow> cause + pystr" where
  "extract_section_content response_text =
     (case response_text of
        JStr t \<Rightarrow> Inr (strip (join (u [CHR 0x0A]) (section_loop (split_on (u [CHR 0x0A]) t) [] False)))
      | _ \<Rightarrow> Inl PyAttributeError)"

text \<open>The loop of \<open>MCPClient._parse_cr_response\<close> over the lines, with the dictionary \<open>attrs\<close>.\<close>

fun parse_loop :: "pystr list \<Rightarrow> (pystr \<rightharpoonup> pystr) \<Rightarrow> (pystr \<rightharpoonup> pystr)" where
  "parse_loop [] attrs = attrs"
| "parse_loop (l # ls) attrs =
     (let line = strip l in
      if startswith line (icon_ticket @ u '' **'') \<and> contains line (u '' - '') then
        (case split_on1 (u '' - '') line of
           [p0, p1] \<Rightarrow> parse_loop ls (attrs(u ''title'' \<mapsto> strip (rstrip_chars p1 (u ''*''))))
         | _ \<Rightarrow> parse_loop ls attrs)
      else if startswith line (u ''- Status:'') then
        parse_loop ls (attrs(u ''status'' \<mapsto> strip (remove_all (u ''- Status:'') line)))
      else if startswith line (u ''- Type:'') then
        parse_loop ls (attrs(u ''type'' \<mapsto> strip (remove_all (u ''- Type:'') line)))
      else if startswith line (u ''- Priority:'') then
        parse_loop ls (attrs(u ''priority'' \<mapsto> strip (remove_all (u ''- Priority:'') line)))
      else parse_loop ls attrs)"

text \<open>\<open>MCPClient._parse_cr_response\<close>.\<close>

definition parse_cr_response :: "pystr \<Rightarrow> pystr \<Rightarrow> (pystr \<rightharpoonup> pystr)" where
  "parse_cr_response response_text tkey =
     parse_loop (split_on (u [CHR 0x0A]) response_text)
       [u ''key'' \<mapsto> tkey, u ''title'' \<mapsto> u ''No Title'', u ''type'' \<mapsto> u ''Unknown'',
        u ''priority'' \<mapsto> u ''Medium'', u ''status'' \<mapsto> u ''Unknown'']"

text \<open>\<open>d.get(k, default)\<close>.\<close>

definition dict_get :: "(pystr \<rightharpoonup> pystr) \<Rightarrow> pystr \<Rightarrow> pystr \<Rightarrow> pystr" where
  "dict_get d k dflt = (case d k of None \<Rightarrow> dflt | Some v \<Rightarrow> v)"

text \<open>
  The environment of a fetch. The function \<open>run\<close> is what the child process does when it
  is started for a tool call with the given name and arguments. Standard output is the
  parameter \<open>pr\<close>, a transition function on a state of its own: \<open>print\<close> of a message either
  returns or raises (the message cannot be encoded, the stream is closed). The two
  messages of the client are the warning for one section, with the section name, the key
  and the cause formatted into it, and the warning of the outer handler, with the key and
  the exception it caught.
\<close>

datatype warning_cause = CallFailed mcp_error | ExtractFailed cause

datatype print_error = PrintRaised

datatype message =
    CouldNotFetchSection pystr pystr warning_cause
  | CouldNotFetchSections pystr print_error

type_synonym 'o printer = "'o \<Rightarrow> message \<Rightarrow> (print_error + unit) \<times> 'o"

type_synonym runner = "pystr \<Rightarrow> (pystr \<times> pystr) list \<Rightarrow> proc_result"

text \<open>
  The handler of the inner \<open>try\<close>: it prints the warning. When \<open>print\<close> raises, the
  exception leaves the handler; otherwise the loop goes on with the sections as they are.
\<close>

definition inner_handler ::
  "'o printer \<Rightarrow> message \<Rightarrow> (pystr \<rightharpoonup> pystr) \<Rightarrow> 'o \<Rightarrow> (print_error + (pystr \<rightharpoonup> pystr)) \<times> 'o" where
  "inner_handler pr m sections out =
     (case pr out m of
        (Inl e, out') \<Rightarrow> (Inl e, out')
      | (Inr _, out') \<Rightarrow> (Inr sections, out'))"

text \<open>
  One round of the loop of \<open>MCPClient._get_ticket_sections\<close>, for one section name: the
  dictionary \<open>sections\<close> after the round, or the exception that left the inner handler.
\<close>

definition fetch_section ::
  "(pystr \<Rightarrow> pystr) \<Rightarrow> (pystr \<Rightarrow> (pystr \<times> json) list option) \<Rightarrow> runner \<Rightarrow> 'o printer \<Rightarrow>
   pystr \<Rightarrow> pystr \<Rightarrow> pystr \<Rightarrow> (pystr \<rightharpoonup> pystr) \<Rightarrow> 'o \<Rightarrow>
   (print_error + (pystr \<rightharpoonup> pystr)) \<times> 'o" where
  "fetch_section ul loads run pr project tkey section_name sections out =
     (case call_mcp_tool loads
             (run (u ''get_cr_section'')
                [(u ''project'', project), (u ''key'', tkey), (u ''section'', section_name)]) of
        Inl e \<Rightarrow>
          inner_handler pr (CouldNotFetchSection section_name tkey (CallFailed e)) sections out
      | Inr content \<Rightarrow>
          if truthy content then
            (case extract_section_content content of
               Inl c \<Rightarrow>
                 inner_handler pr (CouldNotFetchSection section_name tkey (ExtractFailed c))
                   sections out
             | Inr extracted_content \<Rightarrow>
                 if extracted_content \<noteq> [] then
                   (Inr (sections(lower ul (remove_all (u ''## '') section_name) \<mapsto> extracted_content)),
                    out)
                 else (Inr sections, out))
          else (Inr sections, out))"

text \<open>
  The \<open>for\<close> loop over the remaining section names. An exception that leaves the inner
  handler ends the loop; the dictionary keeps what was stored before.
\<close>

fun sections_loop ::
  "(pystr \<Rightarrow> pystr) \<Rightarrow> (pystr \<Rightarrow> (pystr \<times> json) list option) \<Rightarrow> runner \<Rightarrow> 'o printer \<Rightarrow>
   pystr \<Rightarrow> pystr \<Rightarrow> pystr list \<Rightarrow> (pystr \<rightharpoonup> pystr) \<Rightarrow> 'o \<Rightarrow>
   (print_error \<times> (pystr \<rightharpoonup> pystr) + (pystr \<rightharpoonup> pystr)) \<times> 'o" where
  "sections_loop ul loads run pr project tkey [] sections out = (Inr sections, out)"
| "sections_loop ul loads run pr project tkey (section_name # rest) sections out =
     (case fetch_section ul loads run pr project tkey section_name sections out of
        (Inl e, out') \<Rightarrow> (Inl (e, sections), out')
      | (Inr sections', out') \<Rightarrow> sections_loop ul loads run pr project tkey rest sections' out')"

text \<open>
  \<open>MCPClient._get_ticket_sections\<close>: the two sections in their order. The outer handler
  catches the exception that ended the loop and prints a warning of its own; when that
  \<open>print\<close> raises too, the exception leaves the function. Otherwise \<open>sections\<close> is returned.
\<close>

definition get_ticket_sections ::
  "(pystr \<Rightarrow> pystr) \<Rightarrow> (pystr \<Rightarrow> (pystr \<times> json) list option) \<Rightarrow> runner \<Rightarrow> 'o printer \<Rightarrow>
   pystr \<Rightarrow> pystr \<Rightarrow> 'o \<Rightarrow> (print_error + (pystr \<rightharpoonup> pystr)) \<times> 'o" where
  "get_ticket_sections ul loads run pr project tkey out =
     (case sections_loop ul loads run pr project tkey
             [u ''## Description'', u ''## Rationale''] Map.empty out of
        (Inr sections, out') \<Rightarrow> (Inr sections, out')
      | (Inl (e, sections), out') \<Rightarrow>
          (case pr out' (CouldNotFetchSections tkey e) of
             (Inl e', out'') \<Rightarrow> (Inl e', out'')
           | (Inr _, out'') \<Rightarrow> (Inr sections, out'')))"

text \<open>
  \<open>MCPClient.get_ticket\<close>: an error, no ticket, or the record; with the state of standard
  output after it. Its handler re-raises every exception of the body as an
  \<open>MCPClientError\<close> around the cause: a failed attribute call, a response that is not a
  string and has no \<open>split\<close>, or an exception that left \<open>_get_ticket_sections\<close>.
\<close>

datatype fetch_error =
    AttributeCallFailed mcp_error
  | ParseFailed cause
  | SectionsRaised print_error

definition get_ticket ::
  "(pystr \<Rightarrow> pystr) \<Rightarrow> (pystr \<Rightarrow> (pystr \<times> json) list option) \<Rightarrow> runner \<Rightarrow> 'o printer \<Rightarrow>
   pystr \<Rightarrow> pystr \<Rightarrow> 'o \<Rightarrow> (fetch_error + TicketData option) \<times> 'o" where
  "get_ticket ul loads run pr project tkey out =
     (case call_mcp_tool loads (run (u ''get_cr'') [(u ''project'', project), (u ''key'', tkey)]) of
        Inl e \<Rightarrow> (Inl (AttributeCallFailed e), out)
      | Inr attrs_text \<Rightarrow>
          if \<not> truthy attrs_text then (Inr None, out)
          else
            (case attrs_text of
               JStr t \<Rightarrow>
                 let attrs = parse_cr_response t tkey in
                 (case get_ticket_sections ul loads run pr project tkey out of
                    (Inl e, out') \<Rightarrow> (Inl (SectionsRaised e), out')
                  | (Inr sections, out') \<Rightarrow>
                      (Inr (Some \<lparr> key = dict_get attrs (u ''key'') tkey,
                                    title = dict_get attrs (u ''title'') (u ''No Title''),
                                    type = dict_get attrs (u ''type'') (u ''Unknown''),
                                    priority = dict_get attrs (u ''priority'') (u ''Medium''),
                                    status = dict_get attrs (u ''status'') (u ''Unknown''),
                                    description = sections (u ''description''),
                                    rationale = sections (u ''rationale'') \<rparr>),
                       out'))
             | _ \<Rightarrow> (Inl (ParseFailed PyAttributeError), out)))"


section \<open>Predicates used to state the claims\<close>

text \<open>
  A text whose only content is bullet lines: every line is blank or, stripped, starts with
  one of the three characters that \<open>_should_skip_line\<close> tests for a list item.
\<close>

definition only_bullet_lines :: "pystr \<Rightarrow> bool" where
  "only_bullet_lines content =
     list_all (\<lambda>l. strip l = [] \<or> startswith (strip l) (u ''-'') \<or> startswith (strip l) (u ''*'')
                   \<or> startswith (strip l) [bullet])
       (split_on (u [CHR 0x0A]) content)"


text \<open>
  The text an item of a content list contributes in the code: the string under its key
  \<open>text\<close> when the item is an object that has one, and nothing otherwise.
\<close>

definition item_text :: "json \<Rightarrow> pystr" where
  "item_text item =
     (case item of
        JDict d \<Rightarrow> (case map_of d (u ''text'') of Some (JStr t) \<Rightarrow> t | _ \<Rightarrow> [])
      | _ \<Rightarrow> [])"

text \<open>An object item whose \<open>text\<close> field is present and is not a string.\<close>

definition bad_text_item :: "json \<Rightarrow> bool" where
  "bad_text_item item =
     (case item of
        JDict d \<Rightarrow> (case map_of d (u ''text'') of None \<Rightarrow> False | Some (JStr t) \<Rightarrow> False | Some _ \<Rightarrow> True)
      | _ \<Rightarrow> False)"

text \<open>
  The reading of the specification, for comparison with the code: the concatenation of
  the \<open>text\<close> field of exactly the items whose \<open>type\<close> is \<open>text\<close>.
\<close>

definition spec_text_typed_concat :: "json list \<Rightarrow> pystr" where
  "spec_text_typed_concat items =
     concat (map item_text
       (filter (\<lambda>item. case item of
                         JDict d \<Rightarrow> map_of d (u ''type'') = Some (JStr (u ''text''))
                       | _ \<Rightarrow> False) items))"


text \<open>
  What the outcome of one section call contributes to the record, taken on its own:
  the extracted content when the call returns a true value whose extraction succeeds and
  is not empty, and nothing in every other case.
\<close>

definition section_value :: "mcp_error + json \<Rightarrow> pystr option" where
  "section_value res =
     (case res of
        Inl e \<Rightarrow> None
      | Inr content \<Rightarrow>
          if truthy content then
            (case extract_section_content content of
               Inl c \<Rightarrow> None
             | Inr extracted_content \<Rightarrow>
                 if extracted_content \<noteq> [] then Some extracted_content else None)
          else None)"


text \<open>
  An environment for a fetch of \<open>MDT-066\<close>. The attribute call answers with the status
  line; the call for the description answers with a JSON-RPC error whose payload is the
  string of the one code point \<open>U+D800\<close>, a surrogate (the JSON text \<open>\ud800\<close>); the call
  for the rationale answers with a section whose content is \<open>Because\<close>.
\<close>

definition example_loads :: "pystr \<Rightarrow> (pystr \<times> json) list option" where
  "example_loads s =
     (if s = u ''{a}'' then
        Some [(u ''result'', JDict [(u ''content'',
                JList [JDict [(u ''type'', JStr (u ''text'')),
                              (u ''text'', JStr (u ''- Status: Open''))]])])]
      else if s = u ''{d}'' then
        Some [(u ''error'', JStr [55296])]
      else if s = u ''{r}'' then
        Some [(u ''result'', JDict [(u ''content'',
                JList [JDict [(u ''type'', JStr (u ''text'')),
                              (u ''text'', JStr (u (''---\<newline>Because\<newline>---'')))]])])]
      else None)"

definition example_run :: runner where
  "example_run tool args =
     (if tool = u ''get_cr'' then Completed 0 (u (''log\<newline>{a}'')) []
      else if map_of args (u ''section'') = Some (u ''## Rationale'') then Completed 0 (u ''{r}'') []
      else Completed 0 (u ''{d}'') [])"

text \<open>
  Two standard outputs, whose state is the list of the messages printed. The first has
  a UTF-8 encoder, as far as these messages go: the payload of a tool error that is a
  string is formatted into the warning as it is, and \<open>print\<close> raises when it contains a
  surrogate code point. The second is a closed stream, on which every \<open>print\<close> raises.
\<close>

definition utf8_stdout :: "message list printer" where
  "utf8_stdout out m =
     (case m of
        CouldNotFetchSection n k (CallFailed (Unexpected (ToolError (JStr s)))) \<Rightarrow>
          if list_ex (\<lambda>c. 55296 \<le> c \<and> c \<le> 57343) s then (Inl PrintRaised, out)
          else (Inr (), out @ [m])
      | _ \<Rightarrow> (Inr (), out @ [m]))"

definition closed_stdout :: "message list printer" where
  "closed_stdout out m = (Inl PrintRaised, out)"


section \<open>Facts about the string operations\<close>

lemmas str_eval =
  u_def split_ws_def isspace_def split_on_def strip_def lstrip_def rstrip_def bullet_def

lemma startswith_hash3_hash2:
  assumes "startswith s (u ''###'')"
  shows "startswith s (u ''##'')"
proof (cases s)
  case Nil
  with assms show ?thesis by (simp add: u_def)
next
  case (Cons a t)
  with assms show ?thesis by (cases t) (simp_all add: u_def)
qed

lemma contains_hash3_hash2: "contains s (u ''###'') \<Longrightarrow> contains s (u ''##'')"
proof (induction s)
  case Nil
  then show ?case by (simp add: u_def)
next
  case (Cons c cs)
  then show ?case using startswith_hash3_hash2[of "c # cs"] by auto
qed


section \<open>Validation of a candidate\<close>

text \<open>
  Claim C4. A candidate passes \<open>_is_valid_summary\<close> if and only if it is non-empty, its
  whitespace-split word count is between 5 and 30, it has at most 250 characters, it does
  not contain \<open>##\<close>, it has at most two non-blank lines and it contains none of the list
  markers \<open>- \<close>, \<open>\<bullet> \<close> and \<open>* \<close>. In particular a candidate of 31 words is rejected, and one
  of 30 words is accepted when the other checks pass.
\<close>

theorem is_valid_summary_iff:
  "(is_valid_summary s \<longleftrightarrow>
      s \<noteq> [] \<and> 5 \<le> length (split_ws s) \<and> length (split_ws s) \<le> 30 \<and> length s \<le> 250
      \<and> \<not> contains s (u ''##'')
      \<and> length (filter (\<lambda>line. strip line \<noteq> []) (split_on (u [CHR 0x0A]) s)) \<le> 2
      \<and> \<not> contains s (u ''- '') \<and> \<not> contains s [bullet, 32] \<and> \<not> contains s (u ''* ''))
   \<and> (length (split_ws s) = 31 \<longrightarrow> \<not> is_valid_summary s)"
  using contains_hash3_hash2[of s] unfolding is_valid_summary_def Let_def by auto

theorem is_valid_summary_iff_witness:
  "is_valid_summary (u ''a b c d e f g h i j k l m n o p q r s t u v w x y z a b c d'')
   \<and> length (split_ws (u ''a b c d e f g h i j k l m n o p q r s t u v w x y z a b c d'')) = 30
   \<and> length (split_ws (u ''a b c d e f g h i j k l m n o p q r s t u v w x y z a b c d e'')) = 31
   \<and> \<not> is_valid_summary (u ''a b c d e f g h i j k l m n o p q r s t u v w x y z a b c d e'')"
  using is_valid_summary_iff[of "u ''a b c d e f g h i j k l m n o p q r s t u v w x y z a b c d''"]
        is_valid_summary_iff[of "u ''a b c d e f g h i j k l m n o p q r s t u v w x y z a b c d e''"]
  by (simp add: str_eval)


section \<open>The fallback and the entry point never come back empty\<close>

lemma extract_loop_long:
  "\<forall>x\<in>set acc. length x > 30 \<Longrightarrow> \<forall>x\<in>set (extract_loop ul ls acc sk). length x > 30"
proof (induction ls arbitrary: acc sk)
  case Nil
  then show ?case by simp
next
  case (Cons l ls)
  have keep: "\<forall>x\<in>set (extract_loop ul ls acc sk'). length x > 30" for sk'
    using Cons.IH[OF Cons.prems] .
  have ext: "\<forall>x\<in>set (extract_loop ul ls (acc @ [c]) sk'). length x > 30"
    if "length c > 30" for c sk'
    using Cons.IH[of "acc @ [c]" sk'] Cons.prems that by simp
  show ?case
    using Cons.prems keep ext by (auto simp: Let_def)
qed

lemma extract_meaningful_long:
  "x \<in> set (extract_meaningful_sentences ul content) \<Longrightarrow> length x > 30"
  using extract_loop_long[of "[]" ul _ False] by (auto simp: extract_meaningful_sentences_def)

lemma find_Some_in_set: "find P xs = Some x \<Longrightarrow> x \<in> set xs"
  by (induction xs) (auto split: if_splits)

lemma extract_simple_long:
  assumes "x \<in> set (extract_simple_sentences ul content)"
  shows "length x > 20"
proof -
  let ?sent = "map strip (filter (\<lambda>s. strip s \<noteq> [] \<and> length (strip s) > 20)
                             (split_on (u ''. '') content))"
  have all: "\<forall>y\<in>set ?sent. length y > 20" by auto
  have "set (extract_simple_sentences ul content) \<subseteq> set ?sent"
    unfolding extract_simple_sentences_def Let_def
    by (auto split: option.splits dest!: find_Some_in_set in_set_takeD)
  with assms all show ?thesis by blast
qed

lemma join_nonempty: "xs \<noteq> [] \<Longrightarrow> hd xs \<noteq> [] \<Longrightarrow> join sep xs \<noteq> []"
  by (cases "(sep, xs)" rule: join.cases) auto

lemma format_summary_nonempty:
  "sentences \<noteq> [] \<Longrightarrow> hd sentences \<noteq> [] \<Longrightarrow> format_summary_from_sentences sentences \<noteq> []"
  using join_nonempty[of "take 2 sentences" "u '' ''"]
  by (cases sentences) (auto simp: format_summary_from_sentences_def Let_def u_def)

lemma fallback_summary_nonempty: "fallback_summary ul content \<noteq> []"
proof -
  have a: "xs \<noteq> [] \<Longrightarrow> (\<And>x. x \<in> set xs \<Longrightarrow> length x > 20) \<Longrightarrow> hd xs \<noteq> []" for xs :: "pystr list"
    by (cases xs) force+
  have m: "extract_meaningful_sentences ul content \<noteq> [] \<Longrightarrow>
           format_summary_from_sentences (extract_meaningful_sentences ul content) \<noteq> []"
    using extract_meaningful_long[of _ ul content]
    by (intro format_summary_nonempty a) (auto intro: less_trans[of 20 30])
  have s: "extract_simple_sentences ul content \<noteq> [] \<Longrightarrow>
           format_summary_from_sentences (extract_simple_sentences ul content) \<noteq> []"
    using extract_simple_long[of _ ul content]
    by (intro format_summary_nonempty a) auto
  show ?thesis
    using m s by (simp add: fallback_summary_def Let_def u_def)
qed

lemma attempts_loop_nonempty: "fst (attempts_loop be ul content sp atts w) \<noteq> []"
  by (induction atts arbitrary: w)
     (auto simp: fallback_summary_nonempty split: prod.splits sum.splits)

lemma single_summary_attempt_nonempty: "fst (single_summary_attempt be ul content w) \<noteq> []"
  by (auto simp: single_summary_attempt_def fallback_summary_nonempty split: prod.splits sum.splits)

lemma no_content_nonempty: "u ''No content available for summary'' \<noteq> []"
  by (simp add: u_def)

text \<open>
  Claim C1. \<open>generate_summary\<close> is total: for every description and rationale, every
  backend (also one whose every call raises or yields an unusable candidate) and every
  state, it returns a non-empty string; every exception of the backend is a value that the
  functions above absorb, so the result type has no error. On empty input the result is
  the fixed sentence \<open>No content available for summary\<close>.
\<close>

theorem generate_summary_total:
  "fst (generate_summary be ul descr ratio w) \<noteq> []
   \<and> generate_summary be ul [] [] w = (u ''No content available for summary'', w)"
  unfolding generate_summary_def generate_summary_with_attempts_def Let_def
  by (simp add: attempts_loop_nonempty single_summary_attempt_nonempty no_content_nonempty
           del: attempts_loop.simps)

theorem generate_summary_total_witness:
  "fst (generate_summary (\<lambda>st req. (Inl BackendException, st)) (\<lambda>s. s) (u ''- item'') [] ((), [])) \<noteq> []
   \<and> generate_summary (\<lambda>st req. (Inl BackendException, st)) (\<lambda>s. s) [] [] ((), [])
       = (u ''No content available for summary'', ((), []))"
  using generate_summary_total[of "\<lambda>st req. (Inl BackendException, st)" "\<lambda>s. s" "u ''- item''" "[]" "((), [])"]
        generate_summary_total[of "\<lambda>st req. (Inl BackendException, st)" "\<lambda>s. s" "[]" "[]" "((), [])"]
  by simp


section \<open>The attempts of the ladder\<close>

lemma attempt_summary_log:
  "snd (snd (attempt_summary be content sp i w)) = snd w @ [(sp, get_attempt_params content i)]"
  by (simp add: attempt_summary_def Let_def split: prod.splits)

lemma attempts_loop_log:
  "\<exists>k. k \<le> length atts \<and> (atts \<noteq> [] \<longrightarrow> 1 \<le> k) \<and>
       snd (snd (attempts_loop be ul content sp atts w))
         = snd w @ map (\<lambda>i. (sp, get_attempt_params content i)) (take k atts)"
proof (induction atts arbitrary: w)
  case Nil
  then show ?case by simp
next
  case (Cons a atts)
  obtain r w' where step: "attempt_summary be content sp a w = (r, w')"
    by (cases "attempt_summary be content sp a w")
  have log': "snd w' = snd w @ [(sp, get_attempt_params content a)]"
    using attempt_summary_log[of be content sp a w] step by simp
  have "snd (snd (attempts_loop be ul content sp (a # atts) w)) = snd w'
        \<or> attempts_loop be ul content sp (a # atts) w = attempts_loop be ul content sp atts w'"
    using step by (cases r) auto
  then show ?case
  proof (elim disjE)
    assume "snd (snd (attempts_loop be ul content sp (a # atts) w)) = snd w'"
    then show ?thesis using log' by (intro exI[of _ 1]) simp
  next
    assume go: "attempts_loop be ul content sp (a # atts) w = attempts_loop be ul content sp atts w'"
    from Cons.IH[of w'] obtain k where k: "k \<le> length atts"
      "snd (snd (attempts_loop be ul content sp atts w'))
         = snd w' @ map (\<lambda>i. (sp, get_attempt_params content i)) (take k atts)"
      by blast
    show ?thesis
      unfolding go using k log' by (intro exI[of _ "Suc k"]) simp
  qed
qed

text \<open>
  Claim C8. The parameters of an attempt are a function of the attempt number and the
  content alone: attempt 1 sends the whole content with temperature 0.3 and 150 tokens,
  attempt 2 the first 800 characters followed by the request to summarize in 10-20 words,
  with temperature 0.2 and 100 tokens, attempt 3 a fixed prompt that does not depend on
  the content, with temperature 0.0 and 40 tokens. Whatever the backend answers, the
  requests the ladder sends are the first one, two or three rows of this table, in order.
\<close>

theorem attempt_params_table:
  "get_attempt_params content 1 = (content, 3 / 10, 150)
   \<and> get_attempt_params content 2 =
       (take 800 content @
          u (''\<newline>\<newline>Summarize the key improvement or fix being described above in 10-20 words.''),
        2 / 10, 100)
   \<and> get_attempt_params content 3 =
       (u ''Create a dashboard for managing multiple projects. What does this solve? Answer in 10 words maximum.'',
        0, 40)
   \<and> get_attempt_params content 3 = get_attempt_params content' 3
   \<and> (\<exists>k. 1 \<le> k \<and> k \<le> 3 \<and>
         snd (snd (generate_summary_with_attempts be ul content (st, reqs)))
           = reqs @ map (\<lambda>i. (get_system_prompt, get_attempt_params content i)) (take k [1, 2, 3]))"
proof -
  have "\<exists>k. 1 \<le> k \<and> k \<le> 3 \<and>
         snd (snd (generate_summary_with_attempts be ul content (st, reqs)))
           = reqs @ map (\<lambda>i. (get_system_prompt, get_attempt_params content i)) (take k [1, 2, 3])"
    using attempts_loop_log[of "[1, 2, 3]" be ul content get_system_prompt "(st, reqs)"]
    unfolding generate_summary_with_attempts_def by auto
  then show ?thesis by (simp add: get_attempt_params_def)
qed

theorem attempt_params_table_witness:
  "fst (get_attempt_params (u ''abc'') 2)
     = u (''abc\<newline>\<newline>Summarize the key improvement or fix being described above in 10-20 words.'')
   \<and> get_attempt_params (u ''abc'') 3 = get_attempt_params (u ''xyz'') 3"
proof -
  note t = attempt_params_table[of "u ''abc''" "u ''xyz''"
             "\<lambda>st req. (Inl BackendException, st)" "\<lambda>s. s" "()" "[]"]
  from t have a: "get_attempt_params (u ''abc'') 2 =
       (take 800 (u ''abc'') @
          u (''\<newline>\<newline>Summarize the key improvement or fix being described above in 10-20 words.''),
        2 / 10, 100)"
    by blast
  from t have b: "get_attempt_params (u ''abc'') 3 = get_attempt_params (u ''xyz'') 3"
    by blast
  have c: "take 800 (u ''abc'') = u ''abc''" by (simp add: u_def)
  show ?thesis unfolding a c using b by (simp add: u_def)
qed


section \<open>The single attempt for short content\<close>

lemma fallback_hello:
  "fallback_summary (\<lambda>s. s) (u ''hello'') = u ''Unable to generate summary from content''"
  by (simp add: fallback_summary_def extract_meaningful_sentences_def extract_simple_sentences_def
        should_skip_line_def is_section_header_def is_meaningful_line_def lower_def ascii_lower_def
        endswith_def str_eval Let_def)

lemma single_attempt_one_request:
  "snd (single_summary_attempt be ul content (st, reqs))
     = (snd (be st (get_system_prompt, content, 3 / 10, 150)),
        reqs @ [(get_system_prompt, content, 3 / 10, 150)])
   \<and> fst (single_summary_attempt be ul content (st, reqs))
     = (case fst (be st (get_system_prompt, content, 3 / 10, 150)) of
          Inl e \<Rightarrow> fallback_summary ul content
        | Inr out \<Rightarrow> if strip out \<noteq> [] then strip out else fallback_summary ul content)"
  by (simp add: single_summary_attempt_def attempt_summary_def get_attempt_params_def Let_def
           split: prod.splits sum.splits)

lemma generate_summary_short:
  assumes "content = (if descr \<noteq> [] \<and> ratio \<noteq> []
                      then u ''Description: '' @ descr @ u (''\<newline>\<newline>Rationale: '') @ ratio
                      else if descr \<noteq> [] then descr else ratio)"
    and "content \<noteq> []" and "length content \<le> 500"
  shows "generate_summary be ul descr ratio w = single_summary_attempt be ul content w"
  using assms by (auto simp: generate_summary_def Let_def)

text \<open>
  Claim C3. For content of at most 500 characters exactly one request is made (the two
  lemmas above). The claim also says that an invalid candidate gives way to the fallback. At
  the content \<open>hello\<close> with a backend that answers \<open>Bad\<close>, the single attempt returns
  \<open>Bad\<close>: a candidate of one word, which \<open>_is_valid_summary\<close> rejects, and not the fallback
  summary of \<open>hello\<close>. The ladder for long content tests \<open>_is_valid_summary\<close> before it
  returns a candidate; the single attempt tests only that the candidate is non-empty.
\<close>

theorem single_attempt_unvalidated:
  "length (u ''hello'') \<le> 500
   \<and> generate_summary (\<lambda>st req. (Inr (u ''Bad''), st)) (\<lambda>s. s) (u ''hello'') [] ((), [])
       = (u ''Bad'', ((), [(get_system_prompt, u ''hello'', 3 / 10, 150)]))
   \<and> \<not> is_valid_summary (u ''Bad'')
   \<and> fallback_summary (\<lambda>s. s) (u ''hello'') = u ''Unable to generate summary from content''"
proof -
  have a: "length (u ''hello'') \<le> 500" "u ''hello'' \<noteq> []" by (simp_all add: u_def)
  have b: "strip (u ''Bad'') = u ''Bad''" "u ''Bad'' \<noteq> []" by (simp_all add: str_eval)
  have c: "\<not> is_valid_summary (u ''Bad'')" by (simp add: is_valid_summary_def str_eval)
  have d: "generate_summary (\<lambda>st req. (Inr (u ''Bad''), st)) (\<lambda>s. s) (u ''hello'') [] ((), [])
       = (u ''Bad'', ((), [(get_system_prompt, u ''hello'', 3 / 10, 150)]))"
    using a b
    by (simp add: generate_summary_def single_summary_attempt_def attempt_summary_def
          get_attempt_params_def)
  show ?thesis using a c d fallback_hello by simp
qed


section \<open>Formatting the extracted sentences\<close>

lemma rsplit1_head_none: "sep \<notin> set s \<Longrightarrow> rsplit1_head sep s = s"
  by (simp add: rsplit1_head_def)

lemma rsplit1_head_last:
  assumes "sep \<in> set s"
  shows "\<exists>q. s = rsplit1_head sep s @ sep # q \<and> sep \<notin> set q"
proof -
  let ?r = "rev s"
  have in_rev: "sep \<in> set ?r" using assms by simp
  have dw: "dropWhile (\<lambda>c. c \<noteq> sep) ?r \<noteq> []"
    using in_rev by (simp add: dropWhile_eq_Nil_conv) 
  then have hd_sep: "hd (dropWhile (\<lambda>c. c \<noteq> sep) ?r) = sep"
    using hd_dropWhile[of "\<lambda>c. c \<noteq> sep" ?r] by simp
  have split: "?r = takeWhile (\<lambda>c. c \<noteq> sep) ?r @ sep # tl (dropWhile (\<lambda>c. c \<noteq> sep) ?r)"
    using dw hd_sep
    by (metis takeWhile_dropWhile_id list.collapse)
  have "s = rev (tl (dropWhile (\<lambda>c. c \<noteq> sep) ?r)) @ sep # rev (takeWhile (\<lambda>c. c \<noteq> sep) ?r)"
    using arg_cong[OF split, of rev] by simp
  moreover have "sep \<notin> set (rev (takeWhile (\<lambda>c. c \<noteq> sep) ?r))"
    using set_takeWhileD[of sep "\<lambda>c. c \<noteq> sep" ?r] by auto
  ultimately show ?thesis using assms by (auto simp: rsplit1_head_def)
qed

lemma rsplit1_head_length: "length (rsplit1_head sep s) \<le> length s"
  by (cases "sep \<in> set s") (use rsplit1_head_last[of sep s] in \<open>auto simp: rsplit1_head_none\<close>, 
      metis length_append le_add1)

lemma dots3: "length (u ''...'') = 3"
  by (simp add: u_def)

lemma format_summary_cases:
  assumes "sentences \<noteq> []" and "t = join (u '' '') (take 2 sentences)"
    and "kept = take (if 150 < length t then 150 else 120) t"
  shows "(length t \<le> 120 \<longrightarrow> format_summary_from_sentences sentences = t)
     \<and> (120 < length t \<longrightarrow>
          (\<exists>p. format_summary_from_sentences sentences = p @ u ''...''
             \<and> (if 32 \<in> set kept then \<exists>q. kept = p @ 32 # q \<and> 32 \<notin> set q else p = kept)))
     \<and> length (format_summary_from_sentences sentences) \<le> 153"
proof -
  have short: "length t \<le> 120 \<Longrightarrow> format_summary_from_sentences sentences = t"
    using assms by (simp add: format_summary_from_sentences_def Let_def)
  have long: "120 < length t \<Longrightarrow> format_summary_from_sentences sentences = rsplit1_head 32 kept @ u ''...''"
    using assms by (simp add: format_summary_from_sentences_def Let_def)
  have keptlen: "length kept \<le> 150" unfolding assms(3) by auto
  have len: "length (format_summary_from_sentences sentences) \<le> 153"
  proof (cases "length t \<le> 120")
    case True
    then show ?thesis using short by simp
  next
    case False
    then show ?thesis
      using long rsplit1_head_length[of 32 kept] keptlen dots3 by simp
  qed
  have ex: "\<exists>p. format_summary_from_sentences sentences = p @ u ''...''
             \<and> (if 32 \<in> set kept then \<exists>q. kept = p @ 32 # q \<and> 32 \<notin> set q else p = kept)"
    if "120 < length t"
    using long[OF that] rsplit1_head_last[of 32 kept] rsplit1_head_none[of 32 kept]
    by (intro exI[of _ "rsplit1_head 32 kept"]) auto
  show ?thesis using short ex len by blast
qed

lemma fallback_summary_found:
  "extract_meaningful_sentences ul content \<noteq> [] \<or> extract_simple_sentences ul content \<noteq> [] \<Longrightarrow>
   fallback_summary ul content =
     format_summary_from_sentences
       (if extract_meaningful_sentences ul content \<noteq> [] then extract_meaningful_sentences ul content
        else extract_simple_sentences ul content)"
  by (simp add: fallback_summary_def Let_def)

lemmas fallback_eval =
  fallback_summary_def extract_meaningful_sentences_def extract_simple_sentences_def
  format_summary_from_sentences_def rsplit1_head_def clean_line_def
  should_skip_line_def is_section_header_def is_meaningful_line_def lower_def ascii_lower_def
  endswith_def str_eval Let_def

lemma first_sep_unique:
  "sep \<notin> set a \<Longrightarrow> sep \<notin> set a' \<Longrightarrow> a @ sep # b = a' @ sep # b' \<Longrightarrow> b = b'"
proof (induction a arbitrary: a')
  case Nil
  then show ?case by (cases a') auto
next
  case (Cons x a)
  then show ?case by (cases a') auto
qed

lemma last_sep_unique:
  assumes "p @ sep # q = p' @ sep # q'" and "sep \<notin> set q" and "sep \<notin> set q'"
  shows "p = p'"
proof -
  have "rev (p @ sep # q) = rev (p' @ sep # q')" by (simp only: assms(1))
  then have e: "rev q @ sep # rev p = rev q' @ sep # rev p'" by simp
  have "rev p = rev p'"
    by (rule first_sep_unique[OF _ _ e]) (use assms(2,3) in simp_all)
  then show ?thesis by simp
qed

lemma witness_sentences:
  "extract_meaningful_sentences (\<lambda>s. s) (u ''The parser caches compiled grammar tables so that repeated runs skip regeneration and start much faster on big repositories today'') = [u ''The parser caches compiled grammar tables so that repeated runs skip regeneration and start much faster on big repositories today'']"
  by (simp add: fallback_eval)

text \<open>
  Claim C5, as the code has it. When the fallback finds at least one qualifying line (or,
  failing that, a sentence), its summary is made of the first one or two of them joined
  with a space. A joined text of at most 120 characters is the summary. A longer one is
  cut to its first 150 characters when it has more than 150, and to its first 120
  otherwise; the cut text loses what follows its last space (and that space), if it has
  one, and \<open>...\<close> is appended. The summary has at most 153 characters.
\<close>

theorem fallback_summary_truncation:
  assumes "sentences = (if extract_meaningful_sentences ul content \<noteq> []
                        then extract_meaningful_sentences ul content
                        else extract_simple_sentences ul content)"
    and "sentences \<noteq> []"
    and "t = join (u '' '') (take 2 sentences)"
    and "kept = take (if 150 < length t then 150 else 120) t"
  shows "(length t \<le> 120 \<longrightarrow> fallback_summary ul content = t)
     \<and> (120 < length t \<longrightarrow>
          (\<exists>p. fallback_summary ul content = p @ u ''...''
             \<and> (if 32 \<in> set kept then \<exists>q. kept = p @ 32 # q \<and> 32 \<notin> set q else p = kept)))
     \<and> length (fallback_summary ul content) \<le> 153"
proof -
  have "fallback_summary ul content = format_summary_from_sentences sentences"
    using assms(1,2) fallback_summary_found[of ul content] by (simp split: if_splits)
  then show ?thesis
    using format_summary_cases[OF assms(2,3,4)] by simp
qed

theorem fallback_summary_truncation_witness:
  "fallback_summary (\<lambda>s. s) (u ''The parser caches compiled grammar tables so that repeated runs skip regeneration and start much faster on big repositories today'') = u ''The parser caches compiled grammar tables so that repeated runs skip regeneration and start much faster on big...''"
proof -
  let ?c = "u ''The parser caches compiled grammar tables so that repeated runs skip regeneration and start much faster on big repositories today''"
  have s: "[?c] = (if extract_meaningful_sentences (\<lambda>s. s) ?c \<noteq> []
                        then extract_meaningful_sentences (\<lambda>s. s) ?c
                        else extract_simple_sentences (\<lambda>s. s) ?c)"
    by (simp add: witness_sentences)
  have ne: "[?c] \<noteq> []" by simp
  have t: "?c = join (u '' '') (take 2 [?c])" by simp
  have len: "length ?c = 129" by (simp add: u_def)
  have k: "u ''The parser caches compiled grammar tables so that repeated runs skip regeneration and start much faster on big repositor'' = take (if 150 < length ?c then 150 else 120) ?c"
    unfolding len by (simp add: u_def)
  have sp: "32 \<in> set (u ''The parser caches compiled grammar tables so that repeated runs skip regeneration and start much faster on big repositor'')" by (simp add: u_def)
  from fallback_summary_truncation[OF s ne t k] len sp
  obtain p q where pq: "fallback_summary (\<lambda>s. s) ?c = p @ u ''...''"
      "u ''The parser caches compiled grammar tables so that repeated runs skip regeneration and start much faster on big repositor'' = p @ 32 # q" "32 \<notin> set q"
    by auto
  have dec: "u ''The parser caches compiled grammar tables so that repeated runs skip regeneration and start much faster on big repositor'' = u ''The parser caches compiled grammar tables so that repeated runs skip regeneration and start much faster on big'' @ 32 # u ''repositor''" "32 \<notin> set (u ''repositor'')"
    by (simp_all add: u_def)
  have e: "p @ 32 # q = u ''The parser caches compiled grammar tables so that repeated runs skip regeneration and start much faster on big'' @ 32 # u ''repositor''"
    by (rule trans[OF pq(2)[symmetric] dec(1)])
  have uniq: "p = u ''The parser caches compiled grammar tables so that repeated runs skip regeneration and start much faster on big''"
    by (rule last_sep_unique[OF e pq(3) dec(2)])
  show ?thesis using pq(1) uniq by (simp add: u_def)
qed

text \<open>
  Claim C5 as stated bounds the summary by 150 characters. A single line of 151 letters
  \<open>a\<close> qualifies, is cut to 150 characters, has no space to break at, and with the
  ellipsis the fallback returns 153 characters; no cap of 120 is tried on it.
\<close>

theorem fallback_exceeds_150:
  "fallback_summary id (u ''aaaaaaaaaaaaaaaaaaaaaaaaaaaaaaaaaaaaaaaaaaaaaaaaaaaaaaaaaaaaaaaaaaaaaaaaaaaaaaaaaaaaaaaaaaaaaaaaaaaaaaaaaaaaaaaaaaaaaaaaaaaaaaaaaaaaaaaaaaaaaaaaaaaaaaa'') = u ''aaaaaaaaaaaaaaaaaaaaaaaaaaaaaaaaaaaaaaaaaaaaaaaaaaaaaaaaaaaaaaaaaaaaaaaaaaaaaaaaaaaaaaaaaaaaaaaaaaaaaaaaaaaaaaaaaaaaaaaaaaaaaaaaaaaaaaaaaaaaaaaaaaaaaa...''
   \<and> length (fallback_summary id (u ''aaaaaaaaaaaaaaaaaaaaaaaaaaaaaaaaaaaaaaaaaaaaaaaaaaaaaaaaaaaaaaaaaaaaaaaaaaaaaaaaaaaaaaaaaaaaaaaaaaaaaaaaaaaaaaaaaaaaaaaaaaaaaaaaaaaaaaaaaaaaaaaaaaaaaaa'')) = 153"
  by (simp add: fallback_eval)


section \<open>The fallback on a text of bullet lines\<close>

lemma should_skip_bullet:
  "startswith line (u ''-'') \<or> startswith line (u ''*'') \<or> startswith line [bullet] \<Longrightarrow>
   should_skip_line ul line"
  by (simp add: should_skip_line_def)

lemma extract_loop_all_skipped:
  "\<forall>l\<in>set ls. strip l = [] \<or> should_skip_line ul (strip l) \<Longrightarrow> extract_loop ul ls acc sk = acc"
  by (induction ls arbitrary: sk) (auto simp: Let_def)

lemma extract_meaningful_bullets:
  assumes "only_bullet_lines content"
  shows "extract_meaningful_sentences ul content = []"
proof -
  have "\<forall>l\<in>set (split_on (u [CHR 0x0A]) content). strip l = [] \<or> should_skip_line ul (strip l)"
    using assms should_skip_bullet[of _ ul]
    unfolding only_bullet_lines_def list_all_iff by blast
  then show ?thesis
    unfolding extract_meaningful_sentences_def by (rule extract_loop_all_skipped)
qed

lemma extract_simple_empty_iff:
  "extract_simple_sentences ul content = [] \<longleftrightarrow>
     list_all (\<lambda>s. length (strip s) \<le> 20) (split_on (u ''. '') content)"
proof -
  let ?sent = "map strip (filter (\<lambda>s. strip s \<noteq> [] \<and> length (strip s) > 20)
                             (split_on (u ''. '') content))"
  have a: "extract_simple_sentences ul content = [] \<longleftrightarrow> ?sent = []"
    unfolding extract_simple_sentences_def Let_def
    by (cases ?sent) (simp_all split: option.splits)
  have b: "?sent = [] \<longleftrightarrow> list_all (\<lambda>s. length (strip s) \<le> 20) (split_on (u ''. '') content)"
    by (auto simp: filter_empty_conv list_all_iff not_less)
  show ?thesis using a b by simp
qed

text \<open>
  Claim C6, as the code has it. On a text whose only content is bullet lines, no line
  qualifies in the line extraction. The fallback then splits the whole text at \<open>. \<close>: it
  returns the fixed sentence \<open>Unable to generate summary from content\<close> when no piece has
  more than 20 characters after stripping, and otherwise the summary formatted from the
  sentence it selects among these pieces.
\<close>

theorem fallback_bullets_only:
  assumes "only_bullet_lines content"
  shows "extract_meaningful_sentences ul content = []
     \<and> (list_all (\<lambda>s. length (strip s) \<le> 20) (split_on (u ''. '') content) \<longrightarrow>
          fallback_summary ul content = u ''Unable to generate summary from content'')
     \<and> (\<not> list_all (\<lambda>s. length (strip s) \<le> 20) (split_on (u ''. '') content) \<longrightarrow>
          extract_simple_sentences ul content \<noteq> []
          \<and> fallback_summary ul content
              = format_summary_from_sentences (extract_simple_sentences ul content))"
  using extract_meaningful_bullets[OF assms, of ul] extract_simple_empty_iff[of ul content]
  by (simp add: fallback_summary_def Let_def)

theorem fallback_bullets_only_witness:
  "only_bullet_lines (u (''- a\<newline>* b''))
   \<and> fallback_summary (\<lambda>s. s) (u (''- a\<newline>* b'')) = u ''Unable to generate summary from content''"
proof -
  have b: "only_bullet_lines (u (''- a\<newline>* b''))"
    by (simp add: only_bullet_lines_def str_eval)
  have s: "list_all (\<lambda>s. length (strip s) \<le> 20) (split_on (u ''. '') (u (''- a\<newline>* b'')))"
    by (simp add: str_eval)
  show ?thesis using fallback_bullets_only[OF b, of "\<lambda>s. s"] b s by blast
qed

text \<open>
  Claim C6 as stated promises the fixed sentence for every text of bullet lines. A single
  bullet line of more than 20 characters is skipped by the line extraction, but it is a
  sentence for the second extraction, and the fallback returns the bullet line itself.
\<close>

theorem fallback_bullet_line_returned:
  "only_bullet_lines (u ''- this bullet line is longer than twenty characters'')
   \<and> fallback_summary id (u ''- this bullet line is longer than twenty characters'')
       = u ''- this bullet line is longer than twenty characters''
   \<and> u ''- this bullet line is longer than twenty characters''
       \<noteq> u ''Unable to generate summary from content''"
  by (simp add: only_bullet_lines_def fallback_eval)


section \<open>Normalizing a ticket identifier\<close>











section \<open>The value a tool call returns\<close>

lemma text_loop_concat:
  "list_all (\<lambda>item. \<not> bad_text_item item) items \<Longrightarrow>
   text_loop items acc = Inr (JStr (acc @ concat (map item_text items)))"
proof (induction items arbitrary: acc)
  case Nil
  then show ?case by simp
next
  case (Cons item items)
  then show ?case
    by (auto simp: item_text_def bad_text_item_def split: json.splits option.splits)
qed

lemma call_mcp_tool_completed:
  assumes "find (\<lambda>line. startswith (strip line) (u ''{'')) (rev (split_on (u [CHR 0x0A]) (strip stdout))) = Some line"
    and "loads (strip line) = Some response"
    and "handle_response response = Inr v"
  shows "call_mcp_tool loads (Completed 0 stdout stderr) = Inr v"
  using assms by (simp add: call_mcp_tool_def)

text \<open>
  Claim C2, as the code has it. When the parsed response has no \<open>error\<close> and its \<open>result\<close>
  is an object whose \<open>content\<close> is a non-empty list, and every \<open>text\<close> field in the list is
  a string, the value returned is the concatenation, in order, of the \<open>text\<close> field of the
  items that are objects with a \<open>text\<close> key, whatever their \<open>type\<close>; the other items are
  ignored. The same value is what \<open>_call_mcp_tool\<close> returns when the child process exits
  with status 0 and this response is parsed from its output.
\<close>

theorem handle_response_content:
  assumes "map_of response (u ''error'') = None"
    and "map_of response (u ''result'') = Some (JDict d)"
    and "map_of d (u ''content'') = Some (JList items)"
    and "items \<noteq> []"
    and "list_all (\<lambda>item. \<not> bad_text_item item) items"
  shows "handle_response response = Inr (JStr (concat (map item_text items)))
     \<and> (\<forall>loads stdout stderr line.
           find (\<lambda>line. startswith (strip line) (u ''{''))
                (rev (split_on (u [CHR 0x0A]) (strip stdout))) = Some line
           \<and> loads (strip line) = Some response \<longrightarrow>
           call_mcp_tool loads (Completed 0 stdout stderr) = Inr (JStr (concat (map item_text items))))"
proof -
  obtain item rest where items: "items = item # rest" using assms(4) by (cases items) auto
  have h: "handle_response response = Inr (JStr (concat (map item_text items)))"
    using assms(1,2,3) text_loop_concat[OF assms(5), of "[]"]
    by (simp add: handle_response_def items)
  show ?thesis using h call_mcp_tool_completed by blast
qed

theorem handle_response_content_witness:
  "handle_response
     [(u ''jsonrpc'', JStr (u ''2.0'')), (u ''id'', JInt 1),
      (u ''result'', JDict [(u ''content'',
          JList [JDict [(u ''type'', JStr (u ''text'')), (u ''text'', JStr (u ''A''))],
                 JDict [(u ''type'', JStr (u ''image'')), (u ''data'', JStr (u ''xyz''))],
                 JDict [(u ''type'', JStr (u ''text'')), (u ''text'', JStr (u ''B''))]])])]
   = Inr (JStr (u ''AB''))"
proof -
  let ?items = "[JDict [(u ''type'', JStr (u ''text'')), (u ''text'', JStr (u ''A''))],
                 JDict [(u ''type'', JStr (u ''image'')), (u ''data'', JStr (u ''xyz''))],
                 JDict [(u ''type'', JStr (u ''text'')), (u ''text'', JStr (u ''B''))]]"
  let ?d = "[(u ''content'', JList ?items)]"
  let ?r = "[(u ''jsonrpc'', JStr (u ''2.0'')), (u ''id'', JInt 1), (u ''result'', JDict ?d)]"
  have 1: "map_of ?r (u ''error'') = None" by (simp add: u_def)
  have 2: "map_of ?r (u ''result'') = Some (JDict ?d)" by (simp add: u_def)
  have 3: "map_of ?d (u ''content'') = Some (JList ?items)" by simp
  have 4: "?items \<noteq> []" by simp
  have 5: "list_all (\<lambda>item. \<not> bad_text_item item) ?items" by (simp add: bad_text_item_def u_def)
  have 6: "concat (map item_text ?items) = u ''AB''" by (simp add: item_text_def u_def)
  from handle_response_content[OF 1 2 3 4 5] show ?thesis unfolding 6 by blast
qed

text \<open>
  Claim C2 as stated selects the items by their type and covers every content list. An
  item of type \<open>image\<close> that has a \<open>text\<close> field contributes its text, where the reading by
  type gives the empty string; and for the empty content list the result object itself is
  returned, not an empty string.
\<close>

theorem handle_response_not_text_typed:
  "handle_response
     [(u ''result'', JDict [(u ''content'',
          JList [JDict [(u ''type'', JStr (u ''image'')), (u ''text'', JStr (u ''X''))]])])]
     = Inr (JStr (u ''X''))
   \<and> spec_text_typed_concat [JDict [(u ''type'', JStr (u ''image'')), (u ''text'', JStr (u ''X''))]] = []
   \<and> handle_response [(u ''result'', JDict [(u ''content'', JList [])])]
     = Inr (JDict [(u ''content'', JList [])])
   \<and> spec_text_typed_concat [] = []"
  by (simp add: handle_response_def spec_text_typed_concat_def item_text_def u_def)

text \<open>
  Claim C10. When the result object has a \<open>content\<close> key whose value is the empty list or
  is not a list, the result object itself is returned, and not a string: the empty
  content list never yields the empty string.
\<close>

theorem handle_response_verbatim:
  assumes "map_of response (u ''error'') = None"
    and "map_of response (u ''result'') = Some (JDict d)"
    and "map_of d (u ''content'') = Some v"
    and "v = JList [] \<or> (\<forall>items. v \<noteq> JList items)"
  shows "handle_response response = Inr (JDict d)
     \<and> handle_response response \<noteq> Inr (JStr [])"
  using assms by (auto simp: handle_response_def split: json.splits list.splits)

theorem handle_response_verbatim_witness:
  "handle_response [(u ''result'', JDict [(u ''content'', JList [])])]
     = Inr (JDict [(u ''content'', JList [])])
   \<and> handle_response [(u ''result'', JDict [(u ''content'', JStr (u ''plain''))])]
     = Inr (JDict [(u ''content'', JStr (u ''plain''))])"
proof -
  have e: "map_of [(u ''result'', x)] (u ''error'') = None" for x :: json by (simp add: u_def)
  have a: "handle_response [(u ''result'', JDict [(u ''content'', JList [])])]
     = Inr (JDict [(u ''content'', JList [])])"
    using handle_response_verbatim[of "[(u ''result'', JDict [(u ''content'', JList [])])]"
            "[(u ''content'', JList [])]" "JList []"] e
    by simp
  have b: "handle_response [(u ''result'', JDict [(u ''content'', JStr (u ''plain''))])]
     = Inr (JDict [(u ''content'', JStr (u ''plain''))])"
    using handle_response_verbatim[of "[(u ''result'', JDict [(u ''content'', JStr (u ''plain''))])]"
            "[(u ''content'', JStr (u ''plain''))]" "JStr (u ''plain'')"] e
    by simp
  show ?thesis using a b by simp
qed


section \<open>Section failures during a fetch\<close>

lemma section_keys:
  "lower ul (remove_all (u ''## '') (u ''## Description'')) = u ''description''"
  "lower ul (remove_all (u ''## '') (u ''## Rationale'')) = u ''rationale''"
  "u ''description'' \<noteq> u ''rationale''"
  by (simp_all add: lower_def ascii_lower_def u_def)

lemma fetch_section_printed:
  assumes "\<And>out m. fst (pr out m) = Inr ()"
    and "call_mcp_tool loads
             (run (u ''get_cr_section'')
                [(u ''project'', project), (u ''key'', tkey), (u ''section'', section_name)]) = res"
  shows "fst (fetch_section ul loads run pr project tkey section_name sections out) =
     Inr (case section_value res of
            None \<Rightarrow> sections
          | Some x \<Rightarrow> sections(lower ul (remove_all (u ''## '') section_name) \<mapsto> x))"
proof -
  have h: "fst (inner_handler pr m sections out) = Inr sections" for m
    using assms(1)[of out m] by (cases "pr out m") (auto simp: inner_handler_def)
  show ?thesis
    using assms(2) h
    by (auto simp: fetch_section_def section_value_def split: sum.splits)
qed

lemma get_ticket_sections_printed:
  assumes "\<And>out m. fst (pr out m) = Inr ()"
    and "call_mcp_tool loads
             (run (u ''get_cr_section'')
                [(u ''project'', project), (u ''key'', tkey), (u ''section'', u ''## Description'')]) = dres"
    and "call_mcp_tool loads
             (run (u ''get_cr_section'')
                [(u ''project'', project), (u ''key'', tkey), (u ''section'', u ''## Rationale'')]) = rres"
  shows "\<exists>sections. fst (get_ticket_sections ul loads run pr project tkey out) = Inr sections
           \<and> sections (u ''description'') = section_value dres
           \<and> sections (u ''rationale'') = section_value rres"
proof -
  obtain r1 o1 where f1: "fetch_section ul loads run pr project tkey (u ''## Description'') Map.empty out = (r1, o1)"
    by (cases "fetch_section ul loads run pr project tkey (u ''## Description'') Map.empty out")
  let ?s1 = "case section_value dres of None \<Rightarrow> Map.empty
             | Some x \<Rightarrow> [lower ul (remove_all (u ''## '') (u ''## Description'')) \<mapsto> x]"
  have r1: "r1 = Inr ?s1"
    using fetch_section_printed[where run = run and loads = loads and pr = pr, OF assms(1) assms(2),
            of ul Map.empty out] f1 by simp
  obtain r2 o2 where f2: "fetch_section ul loads run pr project tkey (u ''## Rationale'') ?s1 o1 = (r2, o2)"
    by (cases "fetch_section ul loads run pr project tkey (u ''## Rationale'') ?s1 o1")
  let ?s2 = "case section_value rres of None \<Rightarrow> ?s1
             | Some x \<Rightarrow> ?s1(lower ul (remove_all (u ''## '') (u ''## Rationale'')) \<mapsto> x)"
  have r2: "r2 = Inr ?s2"
    using fetch_section_printed[where run = run and loads = loads and pr = pr, OF assms(1) assms(3),
            of ul ?s1 o1] f2 by simp
  have "fst (get_ticket_sections ul loads run pr project tkey out) = Inr ?s2"
    using f1 f2 r1 r2 by (simp add: get_ticket_sections_def)
  moreover have "?s2 (u ''description'') = section_value dres" "?s2 (u ''rationale'') = section_value rres"
    using section_keys(1,2)[of ul] section_keys(3) by (auto split: option.splits)
  ultimately show ?thesis by blast
qed

lemma sections_independent_when_printed:
  assumes "\<And>out m. fst (pr out m) = Inr ()"
    and "call_mcp_tool loads (run (u ''get_cr'') [(u ''project'', project), (u ''key'', tkey)])
             = Inr (JStr t)"
    and "t \<noteq> []"
    and "call_mcp_tool loads
             (run (u ''get_cr_section'')
                [(u ''project'', project), (u ''key'', tkey), (u ''section'', u ''## Description'')]) = dres"
    and "call_mcp_tool loads
             (run (u ''get_cr_section'')
                [(u ''project'', project), (u ''key'', tkey), (u ''section'', u ''## Rationale'')]) = rres"
  shows "\<exists>rec. fst (get_ticket ul loads run pr project tkey out) = Inr (Some rec)
           \<and> description rec = section_value dres
           \<and> rationale rec = section_value rres"
proof -
  from get_ticket_sections_printed[where run = run and loads = loads and pr = pr,
         OF assms(1) assms(4) assms(5), of ul out]
  obtain sections where s: "fst (get_ticket_sections ul loads run pr project tkey out) = Inr sections"
    "sections (u ''description'') = section_value dres"
    "sections (u ''rationale'') = section_value rres"
    by blast
  obtain o' where "get_ticket_sections ul loads run pr project tkey out = (Inr sections, o')"
    using s(1) by (cases "get_ticket_sections ul loads run pr project tkey out") auto
  then show ?thesis
    using assms(2,3) s(2,3) by (simp add: get_ticket_def Let_def)
qed

lemmas mcp_eval =
  call_mcp_tool_def handle_response_def extract_section_content_def section_value_def
  icon_section_def str_eval

lemma example_calls:
  "call_mcp_tool example_loads
     (example_run (u ''get_cr'') [(u ''project'', u ''MDT''), (u ''key'', u ''MDT-066'')])
     = Inr (JStr (u ''- Status: Open''))"
  "call_mcp_tool example_loads
     (example_run (u ''get_cr_section'')
        [(u ''project'', u ''MDT''), (u ''key'', u ''MDT-066''), (u ''section'', u ''## Description'')])
     = Inl (Unexpected (ToolError (JStr [55296])))"
  "call_mcp_tool example_loads
     (example_run (u ''get_cr_section'')
        [(u ''project'', u ''MDT''), (u ''key'', u ''MDT-066''), (u ''section'', u ''## Rationale'')])
     = Inr (JStr (u (''---\<newline>Because\<newline>---'')))"
  by (simp_all add: example_loads_def example_run_def mcp_eval)

lemma example_rationale_value:
  "section_value (Inr (JStr (u (''---\<newline>Because\<newline>---'')))) = Some (u ''Because'')"
  by (simp add: mcp_eval)

lemma example_attrs:
  "parse_cr_response (u ''- Status: Open'') (u ''MDT-066'')
     = [u ''key'' \<mapsto> u ''MDT-066'', u ''title'' \<mapsto> u ''No Title'', u ''type'' \<mapsto> u ''Unknown'',
        u ''priority'' \<mapsto> u ''Medium'', u ''status'' \<mapsto> u ''Open'']"
  by (simp add: parse_cr_response_def icon_ticket_def str_eval fun_upd_twist)

text \<open>
  Claim C7. A failed section call is to be absorbed: the section is left out, the other
  section is still fetched, and the fetch returns a record. As long as the warnings can
  be printed this is what happens (lemma \<open>sections_independent_when_printed\<close>). The
  handler of a failed call prints the cause, though, and an exception of that \<open>print\<close>
  leaves the handler and ends the loop. In the example environment the description call
  fails with an error payload that standard output cannot encode: the record is returned
  without the rationale, whose call was never made although it would have given
  \<open>Because\<close>; and on a closed standard output the warning of the outer handler raises
  as well, and the fetch fails.
\<close>

theorem warning_print_skips_rationale:
  "get_ticket id example_loads example_run utf8_stdout (u ''MDT'') (u ''MDT-066'') []
     = (Inr (Some \<lparr> key = u ''MDT-066'', title = u ''No Title'', type = u ''Unknown'',
                     priority = u ''Medium'', status = u ''Open'',
                     description = None, rationale = None \<rparr>),
        [CouldNotFetchSections (u ''MDT-066'') PrintRaised])
   \<and> section_value
        (call_mcp_tool example_loads
           (example_run (u ''get_cr_section'')
              [(u ''project'', u ''MDT''), (u ''key'', u ''MDT-066''), (u ''section'', u ''## Rationale'')]))
       = Some (u ''Because'')
   \<and> fst (get_ticket id example_loads example_run closed_stdout (u ''MDT'') (u ''MDT-066'') [])
       = Inl (SectionsRaised PrintRaised)"
proof -
  have a: "u ''- Status: Open'' \<noteq> []" by (simp add: u_def)
  have keys: "dict_get (parse_cr_response (u ''- Status: Open'') (u ''MDT-066'')) (u ''status'') d = u ''Open''"
    "dict_get (parse_cr_response (u ''- Status: Open'') (u ''MDT-066'')) (u ''key'') d = u ''MDT-066''"
    "dict_get (parse_cr_response (u ''- Status: Open'') (u ''MDT-066'')) (u ''title'') d = u ''No Title''"
    "dict_get (parse_cr_response (u ''- Status: Open'') (u ''MDT-066'')) (u ''type'') d = u ''Unknown''"
    "dict_get (parse_cr_response (u ''- Status: Open'') (u ''MDT-066'')) (u ''priority'') d = u ''Medium''"
    for d
    unfolding example_attrs by (simp_all add: dict_get_def u_def)
  have s1: "get_ticket_sections id example_loads example_run utf8_stdout (u ''MDT'') (u ''MDT-066'') []
      = (Inr Map.empty, [CouldNotFetchSections (u ''MDT-066'') PrintRaised])"
    by (simp add: get_ticket_sections_def fetch_section_def inner_handler_def example_calls
          utf8_stdout_def)
  have s2: "get_ticket_sections id example_loads example_run closed_stdout (u ''MDT'') (u ''MDT-066'') []
      = (Inl PrintRaised, [])"
    by (simp add: get_ticket_sections_def fetch_section_def inner_handler_def example_calls
          closed_stdout_def)
  have g1: "get_ticket id example_loads example_run utf8_stdout (u ''MDT'') (u ''MDT-066'') []
     = (Inr (Some \<lparr> key = u ''MDT-066'', title = u ''No Title'', type = u ''Unknown'',
                     priority = u ''Medium'', status = u ''Open'',
                     description = None, rationale = None \<rparr>),
        [CouldNotFetchSections (u ''MDT-066'') PrintRaised])"
    using a by (simp add: get_ticket_def example_calls(1) s1 keys Let_def)
  have g2: "fst (get_ticket id example_loads example_run closed_stdout (u ''MDT'') (u ''MDT-066'') [])
       = Inl (SectionsRaised PrintRaised)"
    using a by (simp add: get_ticket_def example_calls(1) s2 Let_def)
  show ?thesis
    using g1 g2 example_rationale_value by (simp add: example_calls(3))
qed

end
